theory Spec2Isabelle
  imports Main "HOL-Library.Word"
begin

section \<open>threadWin32Impl.cxx: data model\<close>

text \<open>
  The lifecycle enumeration of \<^verbatim>\<open>ThreadWin32Impl\<close> (the values \<^verbatim>\<open>S_new\<close>,
  \<^verbatim>\<open>S_start_called\<close>, \<^verbatim>\<open>S_running\<close>, \<^verbatim>\<open>S_finished\<close> used by the source) and the
  priority enumeration switched over in \<^verbatim>\<open>start\<close>.
\<close>

datatype Status = S_new | S_start_called | S_running | S_finished

datatype ThreadPriority = TP_low | TP_normal | TP_high | TP_urgent

datatype win_priority =
    THREAD_PRIORITY_BELOW_NORMAL
  | THREAD_PRIORITY_NORMAL
  | THREAD_PRIORITY_ABOVE_NORMAL
  | THREAD_PRIORITY_HIGHEST

text \<open>
  A \<^verbatim>\<open>Thread *\<close> is an optional object identity, \<open>None\<close> being \<^verbatim>\<open>nullptr\<close>.
  A \<^verbatim>\<open>HANDLE\<close> is a number, \<open>0\<close> meaning that no handle is assigned (the source
  tests \<^verbatim>\<open>_thread == 0\<close>); a \<^verbatim>\<open>DWORD\<close> is a 32-bit word.
\<close>

type_synonym Thread_ptr = "nat option"
type_synonym HANDLE = nat
type_synonym DWORD = "32 word"

text \<open>
  The part of the program state the operations touch: the fields of one
  \<^verbatim>\<open>ThreadWin32Impl\<close> object (\<^verbatim>\<open>_status\<close>, \<^verbatim>\<open>_joinable\<close>, \<^verbatim>\<open>_thread\<close>, \<^verbatim>\<open>_thread_id\<close>,
  \<^verbatim>\<open>_parent_obj\<close>, its \<^verbatim>\<open>_mutex\<close>), the reference count of the parent \<^verbatim>\<open>Thread\<close>
  object and whether it has been deleted, the thread-local \<^verbatim>\<open>_current_thread\<close> slot
  of the native thread that executes the operation, and the process-wide flag
  \<^verbatim>\<open>_main_thread_known\<close>.
\<close>

record world =
  status :: Status
  joinable :: bool
  thread :: HANDLE
  thread_id :: DWORD
  parent_obj :: Thread_ptr
  mutex_locked :: bool
  parent_ref_count :: int
  parent_deleted :: bool
  current_thread :: Thread_ptr
  main_thread_known :: bool

text \<open>
  Every step an operation takes is also written to a log, in program order, so that
  the order of steps and the lock held at each access can be stated. A status write
  records the value it replaces.
\<close>

datatype event =
    Lock
  | Unlock
  | ReadStatus Status
  | WriteStatus Status Status
  | Wait
  | Notify
  | RefParent
  | UnrefDeleteParent
  | OsCreateThread
  | OsSetThreadPriority win_priority
  | WriteSlot Thread_ptr
  | TestAndSet bool
  | CallThreadMain
  | AssertFailure string

type_synonym state = "world \<times> event list"

text \<open>
  An operation that may block for ever or call user logic that never comes back
  either returns a value in a final state, or never returns; then the state is the
  one in which it is stuck.
\<close>

datatype 'r outcome = Returns 'r state | NeverReturns state

text \<open>What \<^verbatim>\<open>CreateThread\<close> answers: failure (a null handle, the identifier
  variable left alone), or a handle together with the identifier it stores.\<close>

datatype create_result = CreateFailed | Created HANDLE DWORD

section \<open>Primitive steps\<close>

fun emit :: "event \<Rightarrow> state \<Rightarrow> state" where
  "emit e (w, t) = (w, t @ [e])"

fun mutex_lock :: "state \<Rightarrow> state" where
  "mutex_lock (w, t) = (w\<lparr>mutex_locked := True\<rparr>, t @ [Lock])"

fun mutex_unlock :: "state \<Rightarrow> state" where
  "mutex_unlock (w, t) = (w\<lparr>mutex_locked := False\<rparr>, t @ [Unlock])"

fun read_status :: "state \<Rightarrow> state" where
  "read_status (w, t) = (w, t @ [ReadStatus (status w)])"

fun write_status :: "Status \<Rightarrow> state \<Rightarrow> state" where
  "write_status s (w, t) = (w\<lparr>status := s\<rparr>, t @ [WriteStatus (status w) s])"

fun cv_notify :: "state \<Rightarrow> state" where
  "cv_notify (w, t) = (w, t @ [Notify])"

text \<open>
  \<^verbatim>\<open>_cv.wait()\<close> gives the mutex up, sleeps until it is woken and takes the mutex
  again; meanwhile the other threads run. The argument is the status the woken
  thread finds.
\<close>

fun cv_wait :: "Status \<Rightarrow> state \<Rightarrow> state" where
  "cv_wait seen (w, t) = (w\<lparr>status := seen, mutex_locked := True\<rparr>, t @ [Wait])"

text \<open>A \<^verbatim>\<open>wait\<close> that is never woken: the mutex stays given up.\<close>

fun cv_wait_forever :: "state \<Rightarrow> state" where
  "cv_wait_forever (w, t) = (w\<lparr>mutex_locked := False\<rparr>, t @ [Wait])"

text \<open>
  Modelled from the spec: the reference counting of the \<^verbatim>\<open>Thread\<close> object
  (\<^verbatim>\<open>ref()\<close> and \<^verbatim>\<open>unref_delete()\<close> are declared outside the given sources):
  reference-count adjustment with automatic destruction at zero.
\<close>

fun ref_parent :: "state \<Rightarrow> state" where
  "ref_parent (w, t) = (w\<lparr>parent_ref_count := parent_ref_count w + 1\<rparr>, t @ [RefParent])"

fun unref_delete_parent :: "state \<Rightarrow> state" where
  "unref_delete_parent (w, t) =
     (w\<lparr>parent_ref_count := parent_ref_count w - 1,
        parent_deleted := (parent_deleted w \<or> parent_ref_count w - 1 = 0)\<rparr>,
      t @ [UnrefDeleteParent])"

fun CreateThread :: "create_result \<Rightarrow> state \<Rightarrow> state" where
  "CreateThread CreateFailed (w, t) = (w\<lparr>thread := 0\<rparr>, t @ [OsCreateThread])"
| "CreateThread (Created h i) (w, t) = (w\<lparr>thread := h, thread_id := i\<rparr>, t @ [OsCreateThread])"

fun SetThreadPriority :: "win_priority \<Rightarrow> state \<Rightarrow> state" where
  "SetThreadPriority p (w, t) = (w, t @ [OsSetThreadPriority p])"

fun set_current_thread :: "Thread_ptr \<Rightarrow> state \<Rightarrow> state" where
  "set_current_thread p (w, t) = (w\<lparr>current_thread := p\<rparr>, t @ [WriteSlot p])"

text \<open>\<^verbatim>\<open>_main_thread_known.test_and_set\<close>: sets the flag and returns its old value.\<close>

fun test_and_set :: "state \<Rightarrow> bool \<times> state" where
  "test_and_set (w, t) =
     (main_thread_known w, (w\<lparr>main_thread_known := True\<rparr>, t @ [TestAndSet (main_thread_known w)]))"

text \<open>
  Modelled from the spec: the assertion macros \<^verbatim>\<open>nassertd\<close> and \<^verbatim>\<open>nassertr\<close> (defined
  outside the given sources). A failed assertion is reported, and the guarded
  operation then degrades to the early return written after the macro.
\<close>

fun assert_failure :: "string \<Rightarrow> state \<Rightarrow> state" where
  "assert_failure msg (w, t) = (w, t @ [AssertFailure msg])"

section \<open>The operations of threadWin32Impl.cxx\<close>

text \<open>\<^verbatim>\<open>ThreadWin32Impl::setup_main_thread\<close>\<close>

fun setup_main_thread :: "state \<Rightarrow> state" where
  "setup_main_thread s = write_status S_running s"

text \<open>
  \<^verbatim>\<open>ThreadWin32Impl::start\<close>. The debug output is left out. The first argument is
  the answer of the operating system to \<^verbatim>\<open>CreateThread\<close>.
\<close>

definition start :: "create_result \<Rightarrow> ThreadPriority \<Rightarrow> bool \<Rightarrow> state \<Rightarrow> bool \<times> state" where
  "start os priority joinable_arg s0 =
     (let s1 = mutex_lock s0;
          s2 = read_status s1
      in if \<not> (status (fst s2) = S_new \<and> thread (fst s2) = 0) then
           (False, mutex_unlock (assert_failure ''_status == S_new && _thread == 0'' s2))
         else
           let s3 = (fst s2\<lparr>joinable := joinable_arg\<rparr>, snd s2);
               s4 = write_status S_start_called s3;
               s5 = ref_parent s4;
               s6 = CreateThread os s5
           in if thread_id (fst s6) = 0 then
                (False, mutex_unlock (unref_delete_parent s6))
              else
                let s7 = (case priority of
                            TP_low \<Rightarrow> SetThreadPriority THREAD_PRIORITY_BELOW_NORMAL s6
                          | TP_high \<Rightarrow> SetThreadPriority THREAD_PRIORITY_ABOVE_NORMAL s6
                          | TP_urgent \<Rightarrow> SetThreadPriority THREAD_PRIORITY_HIGHEST s6
                          | TP_normal \<Rightarrow> SetThreadPriority THREAD_PRIORITY_NORMAL s6)
                in (True, mutex_unlock s7))"

text \<open>
  \<^verbatim>\<open>ThreadWin32Impl::join\<close>. The loop \<^verbatim>\<open>while (_status != S_finished) _cv.wait()\<close>
  takes the list of the statuses found at the successive wake-ups; when the status
  is not \<^verbatim>\<open>S_finished\<close> and no wake-up is left, the caller stays blocked in \<^verbatim>\<open>wait\<close>.
\<close>

fun join_loop :: "Status list \<Rightarrow> state \<Rightarrow> unit outcome" where
  "join_loop [] s =
     (let s1 = read_status s
      in if status (fst s1) \<noteq> S_finished then NeverReturns (cv_wait_forever s1)
         else Returns () s1)"
| "join_loop (seen # rest) s =
     (let s1 = read_status s
      in if status (fst s1) \<noteq> S_finished then join_loop rest (cv_wait seen s1)
         else Returns () s1)"

definition join :: "Status list \<Rightarrow> state \<Rightarrow> unit outcome" where
  "join wakeups s0 =
     (let s1 = mutex_lock s0;
          s2 = (if joinable (fst s1) then read_status s1 else s1)
      in if \<not> (joinable (fst s2) \<and> status (fst s2) \<noteq> S_new) then
           Returns () (mutex_unlock (assert_failure ''_joinable && _status != S_new'' s2))
         else
           (case join_loop wakeups s2 of
              NeverReturns s3 \<Rightarrow> NeverReturns s3
            | Returns u s3 \<Rightarrow> Returns () (mutex_unlock s3)))"

text \<open>
  \<^verbatim>\<open>ThreadWin32Impl::get_unique_id\<close>: the stream prints the two \<^verbatim>\<open>DWORD\<close>s in
  decimal, without padding. The first argument is what \<^verbatim>\<open>GetCurrentProcessId\<close>
  answers.
\<close>

definition digit_char :: "nat \<Rightarrow> char" where
  "digit_char d =
     (if d = 0 then CHR ''0'' else if d = 1 then CHR ''1'' else if d = 2 then CHR ''2''
      else if d = 3 then CHR ''3'' else if d = 4 then CHR ''4'' else if d = 5 then CHR ''5''
      else if d = 6 then CHR ''6'' else if d = 7 then CHR ''7'' else if d = 8 then CHR ''8''
      else CHR ''9'')"

fun show_dec :: "nat \<Rightarrow> string" where
  "show_dec n = (if n < 10 then [digit_char n] else show_dec (n div 10) @ [digit_char (n mod 10)])"

definition get_unique_id :: "DWORD \<Rightarrow> world \<Rightarrow> string" where
  "get_unique_id pid w = show_dec (unat pid) @ ''.'' @ show_dec (unat (thread_id w))"

text \<open>
  \<^verbatim>\<open>init_current_thread\<close>, \<^verbatim>\<open>ThreadWin32Impl::get_current_thread\<close> and
  \<^verbatim>\<open>ThreadWin32Impl::bind_thread\<close>. The first argument is what
  \<^verbatim>\<open>Thread::get_main_thread()\<close> answers.
\<close>

definition init_current_thread :: "Thread_ptr \<Rightarrow> state \<Rightarrow> Thread_ptr \<times> state" where
  "init_current_thread main_thread s0 =
     (let thread0 = current_thread (fst s0);
          (was_set, s1) = test_and_set s0;
          (thread1, s2) = (if \<not> was_set then (main_thread, set_current_thread main_thread s1)
                           else (thread0, s1))
      in if thread1 = None then (None, assert_failure ''thread != nullptr'' s2)
         else (thread1, s2))"

definition get_current_thread :: "Thread_ptr \<Rightarrow> state \<Rightarrow> Thread_ptr \<times> state" where
  "get_current_thread main_thread s0 =
     (let thread0 = current_thread (fst s0)
      in if thread0 \<noteq> None then (thread0, s0) else init_current_thread main_thread s0)"

definition bind_thread :: "Thread_ptr \<Rightarrow> Thread_ptr \<Rightarrow> state \<Rightarrow> state" where
  "bind_thread main_thread thread_arg s0 =
     (let s1 = (if current_thread (fst s0) = None \<and> thread_arg = main_thread
                then snd (test_and_set s0) else s0)
      in set_current_thread thread_arg s1)"

text \<open>
  \<^verbatim>\<open>ThreadWin32Impl::root_func\<close>. The first argument is the user logic
  \<^verbatim>\<open>thread_main()\<close> of the parent object: any change of the program state, or
  \<open>None\<close> when it never comes back. The profiling macro and the debug output are
  left out.
\<close>

fun call_thread_main :: "(world \<Rightarrow> world option) \<Rightarrow> state \<Rightarrow> state option" where
  "call_thread_main thread_main (w, t) =
     (case thread_main w of None \<Rightarrow> None | Some w' \<Rightarrow> Some (w', t @ [CallThreadMain]))"

definition root_func :: "(world \<Rightarrow> world option) \<Rightarrow> state \<Rightarrow> DWORD outcome" where
  "root_func thread_main s0 =
     (let s1 = set_current_thread (parent_obj (fst s0)) s0;
          s2 = mutex_lock s1;
          s3 = read_status s2
      in if \<not> (status (fst s3) = S_start_called) then
           Returns 1 (mutex_unlock (assert_failure ''self->_status == S_start_called'' s3))
         else
           let s4 = write_status S_running s3;
               s5 = cv_notify s4;
               s6 = mutex_unlock s5
           in case call_thread_main thread_main s6 of
                None \<Rightarrow> NeverReturns (emit CallThreadMain s6)
              | Some s7 \<Rightarrow>
                  let s8 = mutex_lock s7;
                      s9 = read_status s8
                  in if \<not> (status (fst s9) = S_running) then
                       Returns 1 (mutex_unlock (assert_failure ''self->_status == S_running'' s9))
                     else
                       let s10 = write_status S_finished s9;
                           s11 = cv_notify s10;
                           s12 = mutex_unlock s11
                       in Returns 0 (unref_delete_parent s12))"

section \<open>transform2sg.cxx\<close>

text \<open>
  A \<^verbatim>\<open>PandaNode *\<close> is an optional node identity. What an input slot of a
  \<^verbatim>\<open>DataNodeTransmit\<close> points to is seen through \<^verbatim>\<open>DCAST_INTO_V\<close> only: a null
  pointer, a \<^verbatim>\<open>TransformState\<close>, or an object of another class. The methods
  \<^verbatim>\<open>has_data\<close> and \<^verbatim>\<open>get_data\<close> of the input are taken as they come.
\<close>

type_synonym PandaNode_ptr = "nat option"

datatype 'x typed_ptr = Null_ptr | TransformState_ptr 'x | Other_ptr

record 'x DataNodeTransmit =
  has_data :: "int \<Rightarrow> bool"
  get_data :: "int \<Rightarrow> 'x typed_ptr"

record Transform2SG =
  transform_input :: int
  node :: PandaNode_ptr

text \<open>
  The scene graph is seen through the calls of \<^verbatim>\<open>PandaNode::set_transform\<close> made on
  it: the node, the transform and the thread of each call, in order.
\<close>

type_synonym ('x, 'th) scene = "(nat \<times> 'x \<times> 'th) list"

text \<open>The constructor; the argument is the index \<^verbatim>\<open>define_input\<close> answers.\<close>

definition Transform2SG_ctor :: "int \<Rightarrow> Transform2SG" where
  "Transform2SG_ctor idx = \<lparr>transform_input = idx, node = None\<rparr>"

definition set_node :: "PandaNode_ptr \<Rightarrow> Transform2SG \<Rightarrow> Transform2SG" where
  "set_node n self = self\<lparr>node := n\<rparr>"

definition get_node :: "Transform2SG \<Rightarrow> PandaNode_ptr" where
  "get_node self = node self"

text \<open>
  \<^verbatim>\<open>Transform2SG::do_transmit_data\<close>. \<^verbatim>\<open>DCAST_INTO_V\<close> (defined outside the given
  sources) leaves the function when the pointer is not a \<^verbatim>\<open>TransformState\<close>.
\<close>

definition do_transmit_data ::
  "'th \<Rightarrow> 'x DataNodeTransmit \<Rightarrow> Transform2SG \<times> ('x, 'th) scene \<Rightarrow> Transform2SG \<times> ('x, 'th) scene" where
  "do_transmit_data current_thread_arg input st =
     (let self = fst st; calls = snd st
      in if has_data input (transform_input self) then
           (case get_data input (transform_input self) of
              TransformState_ptr transform \<Rightarrow>
                (case node self of
                   Some n \<Rightarrow> (self, calls @ [(n, transform, current_thread_arg)])
                 | None \<Rightarrow> (self, calls))
            | Null_ptr \<Rightarrow> (self, calls)
            | Other_ptr \<Rightarrow> (self, calls))
         else (self, calls))"

text \<open>A client of a \<^verbatim>\<open>Transform2SG\<close> object calls its methods one after the other.\<close>

datatype ('x, 'th) t2sg_call = Call_set_node PandaNode_ptr | Call_transmit 'th "'x DataNodeTransmit"

fun run_call ::
  "('x, 'th) t2sg_call \<Rightarrow> Transform2SG \<times> ('x, 'th) scene \<Rightarrow> Transform2SG \<times> ('x, 'th) scene" where
  "run_call (Call_set_node n) (self, calls) = (set_node n self, calls)"
| "run_call (Call_transmit th input) (self, calls) = do_transmit_data th input (self, calls)"

fun run_calls ::
  "('x, 'th) t2sg_call list \<Rightarrow> Transform2SG \<times> ('x, 'th) scene \<Rightarrow> Transform2SG \<times> ('x, 'th) scene" where
  "run_calls [] st = st"
| "run_calls (c # cs) st = run_calls cs (run_call c st)"

text \<open>The node of the last \<^verbatim>\<open>set_node\<close> call in a list of calls, starting from a default.\<close>

fun last_set_node :: "PandaNode_ptr \<Rightarrow> ('x, 'th) t2sg_call list \<Rightarrow> PandaNode_ptr" where
  "last_set_node d [] = d"
| "last_set_node d (Call_set_node n # cs) = last_set_node n cs"
| "last_set_node d (Call_transmit th input # cs) = last_set_node d cs"

section \<open>Properties of a log\<close>

text \<open>The state an operation ends in, or is stuck in.\<close>

fun outcome_state :: "'r outcome \<Rightarrow> state" where
  "outcome_state (Returns r s) = s"
| "outcome_state (NeverReturns s) = s"

fun returns :: "'r outcome \<Rightarrow> bool" where
  "returns (Returns r s) = True"
| "returns (NeverReturns s) = False"

text \<open>The position of a status in the sequence New, StartCalled, Running, Finished.\<close>

fun rank :: "Status \<Rightarrow> nat" where
  "rank S_new = 0"
| "rank S_start_called = 1"
| "rank S_running = 2"
| "rank S_finished = 3"

text \<open>The status writes of a log: the value replaced and the value written.\<close>

fun status_writes :: "event list \<Rightarrow> (Status \<times> Status) list" where
  "status_writes [] = []"
| "status_writes (WriteStatus a b # es) = (a, b) # status_writes es"
| "status_writes (e # es) = status_writes es"

text \<open>A write is forward-only when it does not go back in the sequence and does not
  leave New for Running or Finished.\<close>

fun forward_only :: "Status \<times> Status \<Rightarrow> bool" where
  "forward_only (a, b) = (rank a \<le> rank b \<and> \<not> (a = S_new \<and> (b = S_running \<or> b = S_finished)))"

text \<open>A write is a single step when it goes to the next status of the sequence.\<close>

fun single_step :: "Status \<times> Status \<Rightarrow> bool" where
  "single_step (a, b) = (rank b = Suc (rank a))"

text \<open>
  Whether every read and write of the status in a log happens with the mutex held;
  the first argument says whether the mutex is held where the log begins.
\<close>

fun accesses_locked :: "bool \<Rightarrow> event list \<Rightarrow> bool" where
  "accesses_locked held [] = True"
| "accesses_locked held (Lock # es) = accesses_locked True es"
| "accesses_locked held (Unlock # es) = accesses_locked False es"
| "accesses_locked held (ReadStatus s # es) = (held \<and> accesses_locked held es)"
| "accesses_locked held (WriteStatus a b # es) = (held \<and> accesses_locked held es)"
| "accesses_locked held (e # es) = accesses_locked held es"

text \<open>A thread object as the constructor leaves it, for the examples:
  the parent object \<open>7\<close>, referenced once by its creator.\<close>

definition example_new :: world where
  "example_new =
     \<lparr>status = S_new, joinable = False, thread = 0, thread_id = 0, parent_obj = Some 7,
      mutex_locked = False, parent_ref_count = 1, parent_deleted = False,
      current_thread = None, main_thread_known = False\<rparr>"

text \<open>The exception the specification grants: one first read of New outside the lock.\<close>

fun locked_except_initial_read :: "event list \<Rightarrow> bool" where
  "locked_except_initial_read (ReadStatus S_new # es) = accesses_locked False es"
| "locked_except_initial_read es = accesses_locked False es"

text \<open>The log of a waiting loop that read the given statuses and waited after each.\<close>

definition seen_log :: "Status list \<Rightarrow> event list" where
  "seen_log ss = concat (map (\<lambda>s. [ReadStatus s, Wait]) ss)"

definition is_digit :: "char \<Rightarrow> bool" where
  "is_digit c = (c \<in> set ''0123456789'')"

text \<open>An input with a transform in slot \<open>0\<close> only, for the examples.\<close>

definition example_input :: "nat DataNodeTransmit" where
  "example_input = \<lparr>has_data = (\<lambda>i. i = 0), get_data = (\<lambda>i. if i = 0 then TransformState_ptr 42 else Null_ptr)\<rparr>"

section \<open>The operations, unfolded\<close>

declare show_dec.simps [simp del]

lemma start_unfold:
  "start os priority j (w, t) =
     (if \<not> (status w = S_new \<and> thread w = 0) then
        (False, (w\<lparr>mutex_locked := False\<rparr>,
                 t @ [Lock, ReadStatus (status w),
                      AssertFailure ''_status == S_new && _thread == 0'', Unlock]))
      else
        (let w1 = (case os of CreateFailed \<Rightarrow> w\<lparr>thread := 0\<rparr>
                            | Created h i \<Rightarrow> w\<lparr>thread := h, thread_id := i\<rparr>);
             t1 = t @ [Lock, ReadStatus S_new, WriteStatus S_new S_start_called, RefParent,
                       OsCreateThread]
         in if thread_id w1 = 0 then
              (False, (w1\<lparr>joinable := j, status := S_start_called, mutex_locked := False,
                          parent_deleted := (parent_deleted w \<or> parent_ref_count w = 0)\<rparr>,
                       t1 @ [UnrefDeleteParent, Unlock]))
            else
              (True, (w1\<lparr>joinable := j, status := S_start_called, mutex_locked := False,
                         parent_ref_count := parent_ref_count w + 1\<rparr>,
                      t1 @ [OsSetThreadPriority
                              (case priority of
                                 TP_low \<Rightarrow> THREAD_PRIORITY_BELOW_NORMAL
                               | TP_normal \<Rightarrow> THREAD_PRIORITY_NORMAL
                               | TP_high \<Rightarrow> THREAD_PRIORITY_ABOVE_NORMAL
                               | TP_urgent \<Rightarrow> THREAD_PRIORITY_HIGHEST),
                            Unlock]))))"
  by (cases os; cases priority) (auto simp: start_def Let_def)

lemma start_succeeds:
  "fst (start (Created h i) p j (w, t)) = (status w = S_new \<and> thread w = 0 \<and> i \<noteq> 0)"
  by (simp add: start_unfold Let_def)

lemma start_succeeds_state:
  assumes "fst (start (Created h i) p j (w, t))"
  shows "thread_id (fst (snd (start (Created h i) p j (w, t)))) = i"
    and "status (fst (snd (start (Created h i) p j (w, t)))) = S_start_called"
  using assms by (simp_all add: start_unfold Let_def split: if_splits)

lemma root_func_unfold:
  "root_func tm (w, t) =
     (if status w = S_start_called then
        (let w1 = w\<lparr>current_thread := parent_obj w, status := S_running, mutex_locked := False\<rparr>;
             t1 = t @ [WriteSlot (parent_obj w), Lock, ReadStatus S_start_called,
                       WriteStatus S_start_called S_running, Notify, Unlock, CallThreadMain]
         in case tm w1 of
              None \<Rightarrow> NeverReturns (w1, t1)
            | Some w2 \<Rightarrow>
                if status w2 = S_running then
                  Returns 0
                    (w2\<lparr>status := S_finished, mutex_locked := False,
                        parent_ref_count := parent_ref_count w2 - 1,
                        parent_deleted := (parent_deleted w2 \<or> parent_ref_count w2 - 1 = 0)\<rparr>,
                     t1 @ [Lock, ReadStatus S_running, WriteStatus S_running S_finished,
                           Notify, Unlock, UnrefDeleteParent])
                else
                  Returns 1
                    (w2\<lparr>mutex_locked := False\<rparr>,
                     t1 @ [Lock, ReadStatus (status w2),
                           AssertFailure ''self->_status == S_running'', Unlock]))
      else
        Returns 1
          (w\<lparr>current_thread := parent_obj w, mutex_locked := False\<rparr>,
           t @ [WriteSlot (parent_obj w), Lock, ReadStatus (status w),
                AssertFailure ''self->_status == S_start_called'', Unlock]))"
  by (auto simp: root_func_def Let_def split: option.splits)

subsection \<open>The waiting loop of join\<close>

lemma join_loop_finished:
  "status w = S_finished \<Longrightarrow> join_loop ws (w, t) = Returns () (w, t @ [ReadStatus S_finished])"
  by (cases ws) simp_all

lemma join_loop_returns:
  "status w \<noteq> S_finished \<Longrightarrow> S_finished \<in> set ws \<Longrightarrow>
   join_loop ws (w, t) =
     Returns () (w\<lparr>status := S_finished, mutex_locked := True\<rparr>,
                 t @ seen_log (status w # takeWhile (\<lambda>s. s \<noteq> S_finished) ws) @ [ReadStatus S_finished])"
proof (induction ws arbitrary: w t)
  case Nil
  then show ?case by simp
next
  case (Cons a ws)
  show ?case
  proof (cases "a = S_finished")
    case True
    with Cons.prems show ?thesis by (cases ws) (simp_all add: seen_log_def)
  next
    case False
    with Cons.prems have "S_finished \<in> set ws" by auto
    from Cons.IH [of "w\<lparr>status := a, mutex_locked := True\<rparr>" "t @ [ReadStatus (status w), Wait]"]
      this False Cons.prems
    show ?thesis by (simp add: seen_log_def)
  qed
qed

lemma join_loop_blocks:
  "status w \<noteq> S_finished \<Longrightarrow> S_finished \<notin> set ws \<Longrightarrow>
   join_loop ws (w, t) =
     NeverReturns (w\<lparr>status := last (status w # ws), mutex_locked := False\<rparr>,
                   t @ seen_log (status w # ws))"
proof (induction ws arbitrary: w t)
  case Nil
  then show ?case by (simp add: seen_log_def)
next
  case (Cons a ws)
  from Cons.prems have a: "a \<noteq> S_finished" and ws: "S_finished \<notin> set ws" by auto
  have "join_loop (a # ws) (w, t) =
          join_loop ws (w\<lparr>status := a, mutex_locked := True\<rparr>, t @ [ReadStatus (status w), Wait])"
    using Cons.prems by simp
  also have "\<dots> = NeverReturns (w\<lparr>status := last (a # ws), mutex_locked := False\<rparr>,
                   (t @ [ReadStatus (status w), Wait]) @ seen_log (a # ws))"
    using Cons.IH [of "w\<lparr>status := a, mutex_locked := True\<rparr>" "t @ [ReadStatus (status w), Wait]"] a ws
    by simp
  finally show ?case by (simp add: seen_log_def)
qed

lemma join_unfold:
  "join ws (w, t) =
     (if \<not> joinable w then
        Returns () (w\<lparr>mutex_locked := False\<rparr>,
                    t @ [Lock, AssertFailure ''_joinable && _status != S_new'', Unlock])
      else if status w = S_new then
        Returns () (w\<lparr>mutex_locked := False\<rparr>,
                    t @ [Lock, ReadStatus S_new, AssertFailure ''_joinable && _status != S_new'', Unlock])
      else if status w = S_finished then
        Returns () (w\<lparr>mutex_locked := False\<rparr>,
                    t @ [Lock, ReadStatus S_finished, ReadStatus S_finished, Unlock])
      else if S_finished \<in> set ws then
        Returns () (w\<lparr>status := S_finished, mutex_locked := False\<rparr>,
                    t @ [Lock, ReadStatus (status w)]
                      @ seen_log (status w # takeWhile (\<lambda>s. s \<noteq> S_finished) ws)
                      @ [ReadStatus S_finished, Unlock])
      else
        NeverReturns (w\<lparr>status := last (status w # ws), mutex_locked := False\<rparr>,
                      t @ [Lock, ReadStatus (status w)] @ seen_log (status w # ws)))"
proof -
  let ?w1 = "w\<lparr>mutex_locked := True\<rparr>"
  let ?t1 = "t @ [Lock, ReadStatus (status w)]"
  consider (a) "\<not> joinable w" | (b) "joinable w" "status w = S_new"
    | (c) "joinable w" "status w = S_finished"
    | (d) "joinable w" "status w \<noteq> S_new" "status w \<noteq> S_finished" "S_finished \<in> set ws"
    | (e) "joinable w" "status w \<noteq> S_new" "status w \<noteq> S_finished" "S_finished \<notin> set ws"
    by blast
  then show ?thesis
  proof cases
    case a
    then show ?thesis by (simp add: join_def)
  next
    case b
    then show ?thesis by (simp add: join_def)
  next
    case c
    then show ?thesis
      using join_loop_finished [of ?w1 ws ?t1] by (simp add: join_def)
  next
    case d
    then show ?thesis
      using join_loop_returns [of ?w1 ws ?t1] by (simp add: join_def)
  next
    case e
    then show ?thesis
      using join_loop_blocks [of ?w1 ws ?t1] by (simp add: join_def)
  qed
qed

subsection \<open>Logs of the operations\<close>

lemma status_writes_seen_log [simp]: "status_writes (seen_log ss @ es) = status_writes es"
  by (induction ss) (simp_all add: seen_log_def)

lemma accesses_locked_seen_log [simp]:
  "accesses_locked True (seen_log ss @ es) = accesses_locked True es"
  by (induction ss) (simp_all add: seen_log_def)

lemma status_writes_seen_log_only [simp]: "status_writes (seen_log ss) = []"
  using status_writes_seen_log [of ss "[]"] by simp

lemma accesses_locked_seen_log_only [simp]: "accesses_locked True (seen_log ss)"
  using accesses_locked_seen_log [of ss "[]"] by simp

lemma writes_start:
  "list_all (\<lambda>x. forward_only x \<and> single_step x)
     (status_writes (drop (length t) (snd (snd (start os p j (w, t))))))"
  by (simp add: start_unfold Let_def)

lemma writes_join: "status_writes (drop (length t) (snd (outcome_state (join ws (w, t))))) = []"
  by (simp add: join_unfold)

lemma writes_root_func:
  "list_all (\<lambda>x. forward_only x \<and> single_step x)
     (status_writes (drop (length t) (snd (outcome_state (root_func tm (w, t))))))"
  by (simp add: root_func_unfold Let_def split: option.splits)

lemma locked_start: "accesses_locked False (drop (length t) (snd (snd (start os p j (w, t)))))"
  by (simp add: start_unfold Let_def)

lemma locked_join: "accesses_locked False (drop (length t) (snd (outcome_state (join ws (w, t)))))"
  by (simp add: join_unfold)

lemma locked_root_func:
  "accesses_locked False (drop (length t) (snd (outcome_state (root_func tm (w, t)))))"
  by (simp add: root_func_unfold Let_def split: option.splits)

subsection \<open>Decimal rendering\<close>

lemma below_ten: "d < 10 \<Longrightarrow> d \<in> {0, 1, 2, 3, 4, 5, 6, 7, 8, 9::nat}"
  by auto

lemma digit_char_inj: "a < 10 \<Longrightarrow> b < 10 \<Longrightarrow> digit_char a = digit_char b \<Longrightarrow> a = b"
  by (drule below_ten, drule below_ten) (auto simp: digit_char_def)

lemma is_digit_digit_char: "is_digit (digit_char d)"
  by (simp add: is_digit_def digit_char_def)

lemma show_dec_nonempty: "show_dec n \<noteq> []"
  by (subst show_dec.simps) simp

lemma show_dec_digits: "list_all is_digit (show_dec n)"
proof (induction n rule: show_dec.induct)
  case (1 n)
  show ?case
  proof (cases "n < 10")
    case True
    then show ?thesis by (subst show_dec.simps) (simp add: is_digit_digit_char)
  next
    case False
    with 1 show ?thesis by (subst show_dec.simps) (simp add: is_digit_digit_char)
  qed
qed

lemma show_dec_inj: "show_dec n = show_dec m \<Longrightarrow> n = m"
proof (induction n arbitrary: m rule: show_dec.induct)
  case (1 n)
  show ?case
  proof (cases "n < 10")
    case n: True
    show ?thesis
    proof (cases "m < 10")
      case True
      with n "1.prems" show ?thesis
        by (simp add: show_dec.simps [of n] show_dec.simps [of m] digit_char_inj)
    next
      case False
      with n "1.prems" show_dec_nonempty [of "m div 10"] show ?thesis
        by (simp add: show_dec.simps [of n] show_dec.simps [of m])
    qed
  next
    case n: False
    show ?thesis
    proof (cases "m < 10")
      case True
      with n "1.prems" show_dec_nonempty [of "n div 10"] show ?thesis
        by (simp add: show_dec.simps [of n] show_dec.simps [of m])
    next
      case False
      with n "1.prems" have eq: "show_dec (n div 10) = show_dec (m div 10)"
        and d: "digit_char (n mod 10) = digit_char (m mod 10)"
        by (simp_all add: show_dec.simps [of n] show_dec.simps [of m])
      from "1.IH" [OF n eq] have "n div 10 = m div 10" .
      moreover from d have "n mod 10 = m mod 10" by (simp add: digit_char_inj)
      ultimately show ?thesis by (metis div_mult_mod_eq)
    qed
  qed
qed

lemma get_unique_id_inj:
  "(get_unique_id pid w1 = get_unique_id pid w2) = (thread_id w1 = thread_id w2)"
  by (auto simp: get_unique_id_def word_unat_eq_iff dest!: show_dec_inj)

subsection \<open>Transform2SG\<close>

lemma do_transmit_data_self: "fst (do_transmit_data th input st) = fst st"
  by (simp add: do_transmit_data_def Let_def split: typed_ptr.splits option.splits)

lemma get_node_run_calls:
  "get_node (fst (run_calls cs (self, calls))) = last_set_node (node self) cs"
proof (induction cs arbitrary: self calls)
  case Nil
  show ?case by (simp add: get_node_def)
next
  case (Cons c cs)
  show ?case
  proof (cases c)
    case (Call_set_node n)
    with Cons.IH [of "set_node n self" calls] show ?thesis by (simp add: set_node_def)
  next
    case (Call_transmit th input)
    obtain self' calls' where st: "do_transmit_data th input (self, calls) = (self', calls')"
      by (cases "do_transmit_data th input (self, calls)")
    with do_transmit_data_self [of th input "(self, calls)"] have "self' = self" by simp
    with Cons.IH [of self calls'] st Call_transmit show ?thesis by simp
  qed
qed

section \<open>The claims\<close>

text \<open>
  C3. When \<^verbatim>\<open>start\<close> is called on an object whose status is not New, or that has a
  handle already, it reports the failed assertion and returns false; the status,
  the joinable flag, the handle, the thread identifier and the reference count of
  the parent object are what they were, and the mutex is free again.
\<close>

theorem start_rejected_changes_nothing:
  assumes "status w \<noteq> S_new \<or> thread w \<noteq> 0"
  shows "start os priority j (w, t) =
           (False, (w\<lparr>mutex_locked := False\<rparr>,
                    t @ [Lock, ReadStatus (status w),
                         AssertFailure ''_status == S_new && _thread == 0'', Unlock]))
         \<and> status (fst (snd (start os priority j (w, t)))) = status w
         \<and> joinable (fst (snd (start os priority j (w, t)))) = joinable w
         \<and> thread (fst (snd (start os priority j (w, t)))) = thread w
         \<and> thread_id (fst (snd (start os priority j (w, t)))) = thread_id w
         \<and> parent_ref_count (fst (snd (start os priority j (w, t)))) = parent_ref_count w
         \<and> parent_deleted (fst (snd (start os priority j (w, t)))) = parent_deleted w"
  using assms by (auto simp: start_def Let_def)

theorem start_rejected_witness:
  "start (Created 5 9) TP_normal True (example_new\<lparr>status := S_running, thread := 5\<rparr>, []) =
     (False, (example_new\<lparr>status := S_running, thread := 5\<rparr>,
              [Lock, ReadStatus S_running, AssertFailure ''_status == S_new && _thread == 0'', Unlock]))"
  using start_rejected_changes_nothing
    [of "example_new\<lparr>status := S_running, thread := 5\<rparr>" "Created 5 9" TP_normal True "[]"]
  by (simp add: example_new_def)




text \<open>
  C6. With an empty slot, \<^verbatim>\<open>get_current_thread\<close> does one test-and-set of the flag.
  If the flag was unset, it binds the slot to the main thread and returns it, and a
  second call returns the same object and does nothing else. If the flag was set
  already, it reports the failed assertion and returns the null pointer.
\<close>

theorem get_current_thread_empty_slot:
  assumes "current_thread w = None" and "main_thread \<noteq> None"
  shows "(if main_thread_known w then
            get_current_thread main_thread (w, t) =
              (None, (w, t @ [TestAndSet True, AssertFailure ''thread != nullptr'']))
          else
            get_current_thread main_thread (w, t) =
              (main_thread, (w\<lparr>main_thread_known := True, current_thread := main_thread\<rparr>,
                             t @ [TestAndSet False, WriteSlot main_thread]))
            \<and> get_current_thread main_thread
                (w\<lparr>main_thread_known := True, current_thread := main_thread\<rparr>,
                 t @ [TestAndSet False, WriteSlot main_thread]) =
                (main_thread, (w\<lparr>main_thread_known := True, current_thread := main_thread\<rparr>,
                               t @ [TestAndSet False, WriteSlot main_thread])))"
  using assms
  by (auto simp: get_current_thread_def init_current_thread_def Let_def)

theorem get_current_thread_empty_slot_witness:
  "get_current_thread (Some 3) (example_new, []) =
     (Some 3, (example_new\<lparr>main_thread_known := True, current_thread := Some 3\<rparr>,
               [TestAndSet False, WriteSlot (Some 3)]))
   \<and> get_current_thread (Some 3)
       (example_new\<lparr>main_thread_known := True, current_thread := Some 3\<rparr>,
        [TestAndSet False, WriteSlot (Some 3)]) =
     (Some 3, (example_new\<lparr>main_thread_known := True, current_thread := Some 3\<rparr>,
               [TestAndSet False, WriteSlot (Some 3)]))
   \<and> get_current_thread (Some 3) (example_new\<lparr>main_thread_known := True\<rparr>, []) =
     (None, (example_new\<lparr>main_thread_known := True\<rparr>,
             [TestAndSet True, AssertFailure ''thread != nullptr'']))"
proof -
  let ?set = "example_new\<lparr>main_thread_known := True\<rparr>"
  have h: "current_thread example_new = None" "Some (3::nat) \<noteq> None"
    and u: "\<not> main_thread_known example_new"
    and h': "current_thread ?set = None" and s: "main_thread_known ?set"
    by (simp_all add: example_new_def)
  from get_current_thread_empty_slot [OF h, of "[]"] u
    get_current_thread_empty_slot [OF h' h(2), of "[]"] s
  show ?thesis by simp
qed

text \<open>
  C7. \<^verbatim>\<open>bind_thread\<close> leaves the given thread in the slot, whatever was there. It
  does the test-and-set of the flag exactly when the slot was empty and the given
  thread is the main thread; so the flag is set afterwards exactly when it was set
  before or that condition holds, and setting it again changes nothing.
\<close>

theorem bind_thread_effect:
  "bind_thread main_thread th (w, t) =
     (w\<lparr>main_thread_known := (main_thread_known w \<or> (current_thread w = None \<and> th = main_thread)),
        current_thread := th\<rparr>,
      t @ (if current_thread w = None \<and> th = main_thread then [TestAndSet (main_thread_known w)] else [])
        @ [WriteSlot th])
   \<and> current_thread (fst (bind_thread main_thread th (w, t))) = th
   \<and> main_thread_known (fst (bind_thread main_thread th (w, t))) =
       (main_thread_known w \<or> (current_thread w = None \<and> th = main_thread))"
  by (auto simp: bind_thread_def Let_def)

theorem bind_thread_effect_witness:
  "bind_thread (Some 3) (Some 3) (example_new, []) =
     (example_new\<lparr>main_thread_known := True, current_thread := Some 3\<rparr>,
      [TestAndSet False, WriteSlot (Some 3)])
   \<and> bind_thread (Some 3) (Some 2) (example_new, []) =
     (example_new\<lparr>current_thread := Some 2\<rparr>, [WriteSlot (Some 2)])
   \<and> bind_thread (Some 3) (Some 3) (example_new\<lparr>current_thread := Some 2\<rparr>, []) =
     (example_new\<lparr>current_thread := Some 3\<rparr>, [WriteSlot (Some 3)])"
  using bind_thread_effect [of "Some 3" "Some 3" example_new "[]"]
    bind_thread_effect [of "Some 3" "Some 2" example_new "[]"]
    bind_thread_effect [of "Some 3" "Some 3" "example_new\<lparr>current_thread := Some 2\<rparr>" "[]"]
  by (simp add: example_new_def)

text \<open>
  C4. \<^verbatim>\<open>root_func\<close> first binds the slot of the calling thread to the parent object.
  Then, when the status is StartCalled, it sets it to Running and signals under the
  lock, then calls the user logic, which so runs with the slot bound and the status
  Running; then, when the status is still Running, it sets it to Finished and
  signals under the lock, and last it gives the reference of the parent object back.
  When one of the two status checks fails it reports the failed assertion and
  returns 1 at once.
\<close>

theorem root_func_order:
  "root_func tm (w, t) =
     (if status w = S_start_called then
        (let w1 = w\<lparr>current_thread := parent_obj w, status := S_running, mutex_locked := False\<rparr>;
             t1 = t @ [WriteSlot (parent_obj w), Lock, ReadStatus S_start_called,
                       WriteStatus S_start_called S_running, Notify, Unlock, CallThreadMain]
         in case tm w1 of
              None \<Rightarrow> NeverReturns (w1, t1)
            | Some w2 \<Rightarrow>
                if status w2 = S_running then
                  Returns 0
                    (w2\<lparr>status := S_finished, mutex_locked := False,
                        parent_ref_count := parent_ref_count w2 - 1,
                        parent_deleted := (parent_deleted w2 \<or> parent_ref_count w2 - 1 = 0)\<rparr>,
                     t1 @ [Lock, ReadStatus S_running, WriteStatus S_running S_finished,
                           Notify, Unlock, UnrefDeleteParent])
                else
                  Returns 1
                    (w2\<lparr>mutex_locked := False\<rparr>,
                     t1 @ [Lock, ReadStatus (status w2),
                           AssertFailure ''self->_status == S_running'', Unlock]))
      else
        Returns 1
          (w\<lparr>current_thread := parent_obj w, mutex_locked := False\<rparr>,
           t @ [WriteSlot (parent_obj w), Lock, ReadStatus (status w),
                AssertFailure ''self->_status == S_start_called'', Unlock]))"
  by (rule root_func_unfold)

theorem root_func_order_witness:
  "root_func (\<lambda>w. if current_thread w = Some 7 \<and> status w = S_running then Some w else None)
     (example_new\<lparr>status := S_start_called, parent_ref_count := 2\<rparr>, []) =
     Returns 0
       (example_new\<lparr>status := S_finished, parent_ref_count := 1, current_thread := Some 7\<rparr>,
        [WriteSlot (Some 7), Lock, ReadStatus S_start_called,
         WriteStatus S_start_called S_running, Notify, Unlock, CallThreadMain,
         Lock, ReadStatus S_running, WriteStatus S_running S_finished, Notify, Unlock,
         UnrefDeleteParent])"
  using root_func_order
    [of "\<lambda>w. if current_thread w = Some 7 \<and> status w = S_running then Some w else None"
        "example_new\<lparr>status := S_start_called, parent_ref_count := 2\<rparr>" "[]"]
  by (simp add: example_new_def)

text \<open>
  C5. On a joinable thread whose status is not New, \<^verbatim>\<open>join\<close> returns exactly when
  the status is Finished at the call or at one of the wake-ups: if it is Finished at
  the call, \<^verbatim>\<open>join\<close> returns without waiting; otherwise it waits after each read
  that is not Finished, returns after the first read of Finished, and stays blocked
  in \<^verbatim>\<open>wait\<close> if there is none. On a thread that is not joinable or is New,
  \<^verbatim>\<open>join\<close> reports the failed assertion and returns without waiting, the state
  unchanged.
\<close>

theorem join_behaviour:
  "(\<not> (joinable w \<and> status w \<noteq> S_new) \<longrightarrow>
      join ws (w, t) =
        Returns () (w\<lparr>mutex_locked := False\<rparr>,
                    t @ [Lock] @ (if joinable w then [ReadStatus S_new] else [])
                      @ [AssertFailure ''_joinable && _status != S_new'', Unlock]))
   \<and> (joinable w \<and> status w = S_finished \<longrightarrow>
      join ws (w, t) =
        Returns () (w\<lparr>mutex_locked := False\<rparr>,
                    t @ [Lock, ReadStatus S_finished, ReadStatus S_finished, Unlock]))
   \<and> (joinable w \<and> status w \<noteq> S_new \<longrightarrow>
      returns (join ws (w, t)) = (status w = S_finished \<or> S_finished \<in> set ws)
      \<and> (status (fst (outcome_state (join ws (w, t)))) = S_finished) = returns (join ws (w, t)))
   \<and> (joinable w \<and> status w \<noteq> S_new \<and> status w \<noteq> S_finished \<and> S_finished \<in> set ws \<longrightarrow>
      join ws (w, t) =
        Returns () (w\<lparr>status := S_finished, mutex_locked := False\<rparr>,
                    t @ [Lock, ReadStatus (status w)]
                      @ seen_log (status w # takeWhile (\<lambda>s. s \<noteq> S_finished) ws)
                      @ [ReadStatus S_finished, Unlock]))
   \<and> (joinable w \<and> status w \<noteq> S_new \<and> status w \<noteq> S_finished \<and> S_finished \<notin> set ws \<longrightarrow>
      join ws (w, t) =
        NeverReturns (w\<lparr>status := last (status w # ws), mutex_locked := False\<rparr>,
                      t @ [Lock, ReadStatus (status w)] @ seen_log (status w # ws)))"
proof (intro conjI impI)
  assume "\<not> (joinable w \<and> status w \<noteq> S_new)"
  then show "join ws (w, t) =
        Returns () (w\<lparr>mutex_locked := False\<rparr>,
                    t @ [Lock] @ (if joinable w then [ReadStatus S_new] else [])
                      @ [AssertFailure ''_joinable && _status != S_new'', Unlock])"
    by (cases "joinable w") (simp_all add: join_unfold)
next
  assume "joinable w \<and> status w = S_finished"
  then show "join ws (w, t) =
        Returns () (w\<lparr>mutex_locked := False\<rparr>,
                    t @ [Lock, ReadStatus S_finished, ReadStatus S_finished, Unlock])"
    by (simp add: join_unfold)
next
  assume "joinable w \<and> status w \<noteq> S_new"
  then show "returns (join ws (w, t)) = (status w = S_finished \<or> S_finished \<in> set ws)"
    by (simp add: join_unfold)
next
  assume a: "joinable w \<and> status w \<noteq> S_new"
  have l: "S_finished \<notin> set ws \<Longrightarrow> status w \<noteq> S_finished \<Longrightarrow> last (status w # ws) \<noteq> S_finished"
    by (cases "ws = []") (auto dest: last_in_set)
  from a l show "(status (fst (outcome_state (join ws (w, t)))) = S_finished) = returns (join ws (w, t))"
    by (simp add: join_unfold del: last.simps)
next
  assume "joinable w \<and> status w \<noteq> S_new \<and> status w \<noteq> S_finished \<and> S_finished \<in> set ws"
  then show "join ws (w, t) =
        Returns () (w\<lparr>status := S_finished, mutex_locked := False\<rparr>,
                    t @ [Lock, ReadStatus (status w)]
                      @ seen_log (status w # takeWhile (\<lambda>s. s \<noteq> S_finished) ws)
                      @ [ReadStatus S_finished, Unlock])"
    by (simp add: join_unfold)
next
  assume "joinable w \<and> status w \<noteq> S_new \<and> status w \<noteq> S_finished \<and> S_finished \<notin> set ws"
  then show "join ws (w, t) =
        NeverReturns (w\<lparr>status := last (status w # ws), mutex_locked := False\<rparr>,
                      t @ [Lock, ReadStatus (status w)] @ seen_log (status w # ws))"
    by (simp add: join_unfold)
qed

theorem join_behaviour_witness:
  "join [S_running, S_finished, S_finished] (example_new\<lparr>joinable := True, status := S_start_called\<rparr>, []) =
     Returns () (example_new\<lparr>joinable := True, status := S_finished\<rparr>,
                 [Lock, ReadStatus S_start_called, ReadStatus S_start_called, Wait,
                  ReadStatus S_running, Wait, ReadStatus S_finished, Unlock])
   \<and> join [S_running] (example_new\<lparr>joinable := True, status := S_start_called\<rparr>, []) =
     NeverReturns (example_new\<lparr>joinable := True, status := S_running\<rparr>,
                   [Lock, ReadStatus S_start_called, ReadStatus S_start_called, Wait,
                    ReadStatus S_running, Wait])
   \<and> join [S_running] (example_new\<lparr>joinable := True, status := S_finished\<rparr>, []) =
     Returns () (example_new\<lparr>joinable := True, status := S_finished\<rparr>,
                 [Lock, ReadStatus S_finished, ReadStatus S_finished, Unlock])
   \<and> join [S_finished] (example_new, []) =
     Returns () (example_new, [Lock, AssertFailure ''_joinable && _status != S_new'', Unlock])
   \<and> join [S_finished] (example_new\<lparr>joinable := True\<rparr>, []) =
     Returns () (example_new\<lparr>joinable := True\<rparr>,
                 [Lock, ReadStatus S_new, AssertFailure ''_joinable && _status != S_new'', Unlock])"
  using join_behaviour [of "example_new\<lparr>joinable := True, status := S_start_called\<rparr>"
                            "[S_running, S_finished, S_finished]" "[]"]
    join_behaviour [of "example_new\<lparr>joinable := True, status := S_start_called\<rparr>" "[S_running]" "[]"]
    join_behaviour [of "example_new\<lparr>joinable := True, status := S_finished\<rparr>" "[S_running]" "[]"]
    join_behaviour [of example_new "[S_finished]" "[]"]
    join_behaviour [of "example_new\<lparr>joinable := True\<rparr>" "[S_finished]" "[]"]
  by (simp add: example_new_def seen_log_def)

text \<open>
  C1, as stated: no operation writes an earlier status or leaves New for Running
  without StartCalled. It fails for \<^verbatim>\<open>setup_main_thread\<close>, which on a New object
  writes Running at once.
\<close>

theorem setup_main_thread_skips_start_called:
  "status example_new = S_new
   \<and> setup_main_thread (example_new, []) =
       (example_new\<lparr>status := S_running\<rparr>, [WriteStatus S_new S_running])
   \<and> \<not> list_all forward_only (status_writes (snd (setup_main_thread (example_new, []))))"
  by (simp add: example_new_def)

text \<open>
  C1, amended. Every status write of \<^verbatim>\<open>start\<close> and of \<^verbatim>\<open>root_func\<close> goes from
  the current status to the next one of the sequence New, StartCalled, Running,
  Finished, so it never goes back and never skips StartCalled; \<^verbatim>\<open>join\<close> writes no
  status. \<^verbatim>\<open>setup_main_thread\<close> writes Running without looking at the current
  status.
\<close>

theorem status_writes_forward:
  "list_all (\<lambda>x. forward_only x \<and> single_step x)
     (status_writes (drop (length t) (snd (snd (start os p j (w, t))))))
   \<and> list_all (\<lambda>x. forward_only x \<and> single_step x)
       (status_writes (drop (length t) (snd (outcome_state (root_func tm (w, t))))))
   \<and> status_writes (drop (length t) (snd (outcome_state (join ws (w, t))))) = []
   \<and> setup_main_thread (w, t) = (w\<lparr>status := S_running\<rparr>, t @ [WriteStatus (status w) S_running])"
  using writes_start [of t os p j w] writes_root_func [of t tm w] writes_join [of t ws w]
  by simp

theorem status_writes_forward_witness:
  "status_writes (snd (snd (start (Created 5 9) TP_normal True (example_new, [])))) =
     [(S_new, S_start_called)]
   \<and> list_all (\<lambda>x. forward_only x \<and> single_step x)
       (status_writes (snd (snd (start (Created 5 9) TP_normal True (example_new, [])))))
   \<and> status_writes (snd (outcome_state (root_func Some (example_new\<lparr>status := S_start_called\<rparr>, [])))) =
     [(S_start_called, S_running), (S_running, S_finished)]
   \<and> list_all (\<lambda>x. forward_only x \<and> single_step x)
       (status_writes (snd (outcome_state (root_func Some (example_new\<lparr>status := S_start_called\<rparr>, [])))))"
proof -
  have a: "status_writes (snd (snd (start (Created 5 9) TP_normal True (example_new, [])))) =
             [(S_new, S_start_called)]"
    by (simp add: start_unfold example_new_def)
  have b: "status_writes (snd (outcome_state (root_func Some (example_new\<lparr>status := S_start_called\<rparr>, [])))) =
             [(S_start_called, S_running), (S_running, S_finished)]"
    by (simp add: root_func_unfold example_new_def)
  from status_writes_forward [of "[]" "Created 5 9" TP_normal True example_new]
    status_writes_forward [of "[]" _ _ _ "example_new\<lparr>status := S_start_called\<rparr>" Some]
  have "list_all (\<lambda>x. forward_only x \<and> single_step x)
          (status_writes (snd (snd (start (Created 5 9) TP_normal True (example_new, [])))))"
    and "list_all (\<lambda>x. forward_only x \<and> single_step x)
          (status_writes (snd (outcome_state (root_func Some (example_new\<lparr>status := S_start_called\<rparr>, [])))))"
    by simp_all
  with a b show ?thesis by simp
qed

text \<open>
  C8, as stated: every read and write of the status happens with the mutex held,
  but for a first read of New. It fails for \<^verbatim>\<open>setup_main_thread\<close>, whose one step
  is a status write with no lock taken.
\<close>

theorem setup_main_thread_unlocked_write:
  "snd (setup_main_thread (example_new, [])) = [WriteStatus S_new S_running]
   \<and> \<not> accesses_locked False (snd (setup_main_thread (example_new, [])))
   \<and> \<not> locked_except_initial_read (snd (setup_main_thread (example_new, [])))"
  by (simp add: example_new_def)

text \<open>
  C8, amended. In \<^verbatim>\<open>start\<close>, \<^verbatim>\<open>join\<close> and \<^verbatim>\<open>root_func\<close> every read and every write
  of the status happens with the mutex held, the first read of \<^verbatim>\<open>start\<close> included.
  \<^verbatim>\<open>setup_main_thread\<close> writes the status without taking the mutex.
\<close>

theorem status_accesses_locked:
  "accesses_locked False (drop (length t) (snd (snd (start os p j (w, t)))))
   \<and> accesses_locked False (drop (length t) (snd (outcome_state (join ws (w, t)))))
   \<and> accesses_locked False (drop (length t) (snd (outcome_state (root_func tm (w, t)))))
   \<and> drop (length t) (snd (setup_main_thread (w, t))) = [WriteStatus (status w) S_running]"
  using locked_start [of t os p j w] locked_join [of t ws w] locked_root_func [of t tm w]
  by simp

theorem status_accesses_locked_witness:
  "snd (snd (start (Created 5 9) TP_normal True (example_new, []))) =
     [Lock, ReadStatus S_new, WriteStatus S_new S_start_called, RefParent, OsCreateThread,
      OsSetThreadPriority THREAD_PRIORITY_NORMAL, Unlock]
   \<and> accesses_locked False (snd (snd (start (Created 5 9) TP_normal True (example_new, []))))
   \<and> accesses_locked False
       (snd (outcome_state (join [S_finished] (example_new\<lparr>joinable := True, status := S_running\<rparr>, []))))
   \<and> accesses_locked False
       (snd (outcome_state (root_func Some (example_new\<lparr>status := S_start_called\<rparr>, []))))"
proof -
  have a: "snd (snd (start (Created 5 9) TP_normal True (example_new, []))) =
     [Lock, ReadStatus S_new, WriteStatus S_new S_start_called, RefParent, OsCreateThread,
      OsSetThreadPriority THREAD_PRIORITY_NORMAL, Unlock]"
    by (simp add: start_unfold example_new_def)
  from status_accesses_locked [of "[]" "Created 5 9" TP_normal True example_new]
  have b: "accesses_locked False (snd (snd (start (Created 5 9) TP_normal True (example_new, []))))"
    by simp
  from status_accesses_locked [of "[]" _ _ _ "example_new\<lparr>joinable := True, status := S_running\<rparr>" "[S_finished]"]
  have c: "accesses_locked False
       (snd (outcome_state (join [S_finished] (example_new\<lparr>joinable := True, status := S_running\<rparr>, []))))"
    by simp
  from status_accesses_locked [of "[]" _ _ _ "example_new\<lparr>status := S_start_called\<rparr>" _ Some]
  have d: "accesses_locked False
       (snd (outcome_state (root_func Some (example_new\<lparr>status := S_start_called\<rparr>, []))))"
    by simp
  from a b c d show ?thesis by simp
qed

text \<open>
  C9. \<^verbatim>\<open>get_unique_id\<close> only reads the state: its result is the decimal digits of
  the process identifier, a dot, and the decimal digits of the stored thread
  identifier. After a successful \<^verbatim>\<open>start\<close> the stored identifier is the non-zero one
  \<^verbatim>\<open>CreateThread\<close> gave, and a later \<^verbatim>\<open>join\<close> or a rejected second \<^verbatim>\<open>start\<close> leaves
  it, so the string stays the same. Two threads of one process have the same string
  exactly when they have the same thread identifier; so two started threads, to
  which the operating system gave different identifiers, have different strings.
\<close>

theorem get_unique_id_format:
  "get_unique_id pid w = show_dec (unat pid) @ ''.'' @ show_dec (unat (thread_id w))
   \<and> show_dec (unat pid) \<noteq> [] \<and> list_all is_digit (show_dec (unat pid))
   \<and> show_dec (unat (thread_id w)) \<noteq> [] \<and> list_all is_digit (show_dec (unat (thread_id w)))
   \<and> (get_unique_id pid w = get_unique_id pid w') = (thread_id w = thread_id w')
   \<and> (fst (start (Created h i) p j (w, t)) \<longrightarrow>
        i \<noteq> 0
        \<and> get_unique_id pid (fst (snd (start (Created h i) p j (w, t)))) =
            show_dec (unat pid) @ ''.'' @ show_dec (unat i)
        \<and> get_unique_id pid (fst (snd (start os2 p2 j2 (snd (start (Created h i) p j (w, t)))))) =
            show_dec (unat pid) @ ''.'' @ show_dec (unat i)
        \<and> get_unique_id pid (fst (outcome_state (join ws (snd (start (Created h i) p j (w, t)))))) =
            show_dec (unat pid) @ ''.'' @ show_dec (unat i))
   \<and> (fst (start (Created h i) p j (w, t)) \<and> fst (start (Created h' i') p' j' (w', t')) \<and> i \<noteq> i' \<longrightarrow>
        get_unique_id pid (fst (snd (start (Created h i) p j (w, t)))) \<noteq>
        get_unique_id pid (fst (snd (start (Created h' i') p' j' (w', t')))))"
proof (intro conjI impI)
  show "get_unique_id pid w = show_dec (unat pid) @ ''.'' @ show_dec (unat (thread_id w))"
    by (simp add: get_unique_id_def)
  show "show_dec (unat pid) \<noteq> []" "show_dec (unat (thread_id w)) \<noteq> []"
    by (rule show_dec_nonempty)+
  show "list_all is_digit (show_dec (unat pid))" "list_all is_digit (show_dec (unat (thread_id w)))"
    by (rule show_dec_digits)+
  show "(get_unique_id pid w = get_unique_id pid w') = (thread_id w = thread_id w')"
    by (rule get_unique_id_inj)
next
  assume s: "fst (start (Created h i) p j (w, t))"
  let ?s1 = "snd (start (Created h i) p j (w, t))"
  from s show "i \<noteq> 0" by (simp add: start_succeeds)
  from start_succeeds_state [OF s]
  have w1: "thread_id (fst ?s1) = i" "status (fst ?s1) = S_start_called" .
  from w1 show "get_unique_id pid (fst ?s1) = show_dec (unat pid) @ ''.'' @ show_dec (unat i)"
    by (simp add: get_unique_id_def)
  obtain w1 t1 where st: "?s1 = (w1, t1)" by (cases ?s1)
  with w1 have w1': "thread_id w1 = i" "status w1 = S_start_called" by simp_all
  from w1' show "get_unique_id pid (fst (snd (start os2 p2 j2 ?s1))) =
            show_dec (unat pid) @ ''.'' @ show_dec (unat i)"
    unfolding st by (simp add: get_unique_id_def start_unfold)
  from w1' show "get_unique_id pid (fst (outcome_state (join ws ?s1))) =
            show_dec (unat pid) @ ''.'' @ show_dec (unat i)"
    unfolding st by (simp add: get_unique_id_def join_unfold)
next
  assume a: "fst (start (Created h i) p j (w, t)) \<and> fst (start (Created h' i') p' j' (w', t')) \<and> i \<noteq> i'"
  then have "thread_id (fst (snd (start (Created h i) p j (w, t)))) = i"
    and "thread_id (fst (snd (start (Created h' i') p' j' (w', t')))) = i'"
    by (simp_all add: start_succeeds_state)
  with a show "get_unique_id pid (fst (snd (start (Created h i) p j (w, t)))) \<noteq>
        get_unique_id pid (fst (snd (start (Created h' i') p' j' (w', t'))))"
    by (simp add: get_unique_id_inj)
qed

theorem get_unique_id_format_witness:
  "fst (start (Created 5 1234) TP_normal True (example_new, []))
   \<and> fst (start (Created 6 1235) TP_low False (example_new, []))
   \<and> get_unique_id 77 (fst (snd (start (Created 5 1234) TP_normal True (example_new, [])))) = ''77.1234''
   \<and> get_unique_id 77 (fst (snd (start (Created 6 1235) TP_low False (example_new, [])))) = ''77.1235''
   \<and> get_unique_id 77 (fst (snd (start (Created 5 1234) TP_normal True (example_new, [])))) \<noteq>
       get_unique_id 77 (fst (snd (start (Created 6 1235) TP_low False (example_new, []))))"
proof -
  have a: "fst (start (Created 5 1234) TP_normal True (example_new, []))"
    and b: "fst (start (Created 6 1235) TP_low False (example_new, []))"
    by (simp_all add: start_unfold example_new_def)
  have d: "show_dec 77 = ''77''" "show_dec 1234 = ''1234''" "show_dec 1235 = ''1235''"
    by (simp_all add: show_dec.simps digit_char_def)
  have n: "(1234::32 word) \<noteq> 1235" by simp
  note T = get_unique_id_format [of 77 example_new example_new 5 1234 TP_normal True "[]" _ _ _ _ 6 1235 TP_low False "[]"]
  note T2 = get_unique_id_format [of 77 example_new _ 6 1235 TP_low False "[]"]
  from T T2 a b n d show ?thesis by simp
qed

text \<open>
  C10. \<^verbatim>\<open>do_transmit_data\<close> never changes the \<^verbatim>\<open>Transform2SG\<close> object. It calls
  \<^verbatim>\<open>set_transform\<close> on the node, with the transform of the input and the current
  thread of the traverser, exactly when the input has data in the transform slot,
  the data is a \<^verbatim>\<open>TransformState\<close> and the node is not null; otherwise it calls
  nothing. After any calls of \<^verbatim>\<open>set_node\<close> and \<^verbatim>\<open>do_transmit_data\<close> on a new
  object, \<^verbatim>\<open>get_node\<close> returns the argument of the last \<^verbatim>\<open>set_node\<close>, or null when
  there was none.
\<close>

theorem transform2sg_behaviour:
  "fst (do_transmit_data th input (self, calls)) = self
   \<and> (has_data input (transform_input self)
        \<and> get_data input (transform_input self) = TransformState_ptr x \<and> node self = Some n \<longrightarrow>
        snd (do_transmit_data th input (self, calls)) = calls @ [(n, x, th)])
   \<and> (\<not> has_data input (transform_input self)
        \<or> get_data input (transform_input self) = Null_ptr
        \<or> get_data input (transform_input self) = Other_ptr
        \<or> node self = None \<longrightarrow>
        snd (do_transmit_data th input (self, calls)) = calls)
   \<and> get_node (set_node m self) = m
   \<and> get_node (Transform2SG_ctor idx) = None
   \<and> get_node (fst (run_calls cs (Transform2SG_ctor idx, calls))) = last_set_node None cs"
proof (intro conjI impI)
  show "fst (do_transmit_data th input (self, calls)) = self"
    using do_transmit_data_self [of th input "(self, calls)"] by simp
  show "get_node (set_node m self) = m"
    by (simp add: get_node_def set_node_def)
  show "get_node (Transform2SG_ctor idx) = None"
    by (simp add: get_node_def Transform2SG_ctor_def)
  show "get_node (fst (run_calls cs (Transform2SG_ctor idx, calls))) = last_set_node None cs"
    using get_node_run_calls [of cs "Transform2SG_ctor idx" calls]
    by (simp add: Transform2SG_ctor_def)
next
  assume "has_data input (transform_input self)
        \<and> get_data input (transform_input self) = TransformState_ptr x \<and> node self = Some n"
  then show "snd (do_transmit_data th input (self, calls)) = calls @ [(n, x, th)]"
    by (simp add: do_transmit_data_def)
next
  assume "\<not> has_data input (transform_input self)
        \<or> get_data input (transform_input self) = Null_ptr
        \<or> get_data input (transform_input self) = Other_ptr
        \<or> node self = None"
  then show "snd (do_transmit_data th input (self, calls)) = calls"
    by (auto simp: do_transmit_data_def split: typed_ptr.splits option.splits)
qed

theorem transform2sg_behaviour_witness:
  "snd (do_transmit_data (1::nat) example_input (set_node (Some 3) (Transform2SG_ctor 0), [])) = [(3, 42, 1)]
   \<and> snd (do_transmit_data (1::nat) example_input (Transform2SG_ctor 0, [])) = []
   \<and> snd (do_transmit_data (1::nat) example_input (set_node (Some 3) (Transform2SG_ctor 1), [])) = []
   \<and> get_node (fst (run_calls [Call_set_node (Some 3), Call_transmit (1::nat) example_input,
                                Call_set_node (Some 4), Call_transmit 1 example_input]
                               (Transform2SG_ctor 0, []))) = Some 4
   \<and> get_node (fst (run_calls [Call_transmit (1::nat) example_input] (Transform2SG_ctor 0, []))) = None"
  using transform2sg_behaviour [of 1 example_input "set_node (Some 3) (Transform2SG_ctor 0)" "[]" 42 3]
    transform2sg_behaviour [of 1 example_input "Transform2SG_ctor 0" "[]"]
    transform2sg_behaviour [of 1 example_input "set_node (Some 3) (Transform2SG_ctor 1)" "[]"]
    transform2sg_behaviour [of 1 example_input _ "[]" _ _ _ 0
       "[Call_set_node (Some 3), Call_transmit (1::nat) example_input,
         Call_set_node (Some 4), Call_transmit 1 example_input]"]
    transform2sg_behaviour [of 1 example_input _ "[]" _ _ _ 0 "[Call_transmit (1::nat) example_input]"]
  by (simp add: example_input_def set_node_def Transform2SG_ctor_def)

end
